theory Spec2Isabelle
  imports Main
begin

section \<open>Python text\<close>

text \<open>
  A Python \<open>str\<close> is a sequence of Unicode code points, so text is modelled as a list of
  code points and not as a list of 8-bit characters.  \<open>str\<close> embeds an ASCII literal.
\<close>

type_synonym codepoint = nat
type_synonym pystr = "codepoint list"

definition str :: "string \<Rightarrow> pystr" where
  "str s = map of_char s"

text \<open>
  \<open>str.isspace\<close> for one code point: the white space table of the interpreter
  (\<open>U+0009..U+000D\<close>, \<open>U+001C..U+0020\<close>, \<open>U+0085\<close>, \<open>U+00A0\<close>, \<open>U+1680\<close>,
  \<open>U+2000..U+200A\<close>, \<open>U+2028\<close>, \<open>U+2029\<close>, \<open>U+202F\<close>, \<open>U+205F\<close>, \<open>U+3000\<close>).
\<close>

definition isspace :: "codepoint \<Rightarrow> bool" where
  "isspace c \<longleftrightarrow>
     (9 \<le> c \<and> c \<le> 13) \<or> (28 \<le> c \<and> c \<le> 32) \<or> c = 133 \<or> c = 160 \<or> c = 5760 \<or>
     (8192 \<le> c \<and> c \<le> 8202) \<or> c = 8232 \<or> c = 8233 \<or> c = 8239 \<or> c = 8287 \<or>
     c = 12288"

text \<open>\<open>s.strip()\<close>: white space removed at both ends.\<close>

definition strip :: "pystr \<Rightarrow> pystr" where
  "strip s = rev (dropWhile isspace (rev (dropWhile isspace s)))"

text \<open>
  \<open>s.split(sep)\<close> for a separator of one code point.  The result always has at least
  one field (\<open>''.split(',')\<close> is \<open>['']\<close>), so the \<open>[]\<close> case below is never taken.
\<close>

fun split :: "pystr \<Rightarrow> codepoint \<Rightarrow> pystr list" where
  "split [] sep = [[]]"
| "split (c # cs) sep =
     (if c = sep then [] # split cs sep
      else (case split cs sep of [] \<Rightarrow> [[c]] | f # fs \<Rightarrow> (c # f) # fs))"

text \<open>
  \<open>s.lower()\<close>.  On a string of ASCII code points only, it maps \<open>A..Z\<close> to \<open>a..z\<close>
  and leaves every other code point alone.  On any other string the result is given by the
  interpreter's Unicode tables, which are no part of this program: they are the
  parameter \<open>ulower\<close>, about which nothing is assumed.
\<close>

definition ascii_lower :: "codepoint \<Rightarrow> codepoint" where
  "ascii_lower c = (if 65 \<le> c \<and> c \<le> 90 then c + 32 else c)"

definition lower :: "(pystr \<Rightarrow> pystr) \<Rightarrow> pystr \<Rightarrow> pystr" where
  "lower ulower s = (if list_all (\<lambda>c. c < 128) s then map ascii_lower s else ulower s)"

text \<open>
  \<open>f.readline()\<close> at the start of a file opened in text mode with universal newlines:
  the text up to the first line end (\<open>\n\<close>, \<open>\r\<close> or \<open>\r\n\<close>), which is handed over as
  \<open>\n\<close>; the whole text when it has no line end.
\<close>

definition readline :: "pystr \<Rightarrow> pystr" where
  "readline content =
     (case dropWhile (\<lambda>c. c \<noteq> 10 \<and> c \<noteq> 13) content of
        [] \<Rightarrow> content
      | _ # _ \<Rightarrow> takeWhile (\<lambda>c. c \<noteq> 10 \<and> c \<noteq> 13) content @ [10])"

section \<open>The files and the state of the process\<close>

text \<open>
  An exception raised by \<open>open\<close>, \<open>readline\<close> or \<open>print\<close>; all of these are subclasses
  of \<open>Exception\<close>.
\<close>

datatype exn = FileNotFoundError | PermissionError | IsADirectoryError | OSError | ValueError
  | UnicodeEncodeError | BrokenPipeError

text \<open>
  What the \<open>with open(filepath, 'r', encoding='utf-8', errors='ignore')\<close> block finds at a
  path: an exception, or the decoded text of the file.  With \<open>errors='ignore'\<close> the decoder
  drops malformed bytes and never raises, so a file that can be read always has a text.
\<close>

type_synonym filesystem = "pystr \<Rightarrow> exn + pystr"

text \<open>
  What \<open>print\<close> does with the message built from a path and an exception: it writes it
  (\<open>None\<close>), or it raises (a path that the encoding of the standard output cannot encode,
  a closed or broken standard output).
\<close>

type_synonym console = "pystr \<Rightarrow> exn \<Rightarrow> exn option"

text \<open>
  The state: the module's dictionary \<open>format_cache\<close>, the paths that were handed to
  \<open>open\<close> (latest first) and what was printed (latest first; a pair stands for the
  message built from the path and the exception).
\<close>

record state =
  format_cache :: "pystr \<rightharpoonup> pystr"
  opened :: "pystr list"
  printed :: "(pystr \<times> exn) list"

definition initial :: state where
  "initial = \<lparr>format_cache = Map.empty, opened = [], printed = []\<rparr>"

section \<open>Format detection\<close>

definition columns :: "(pystr \<Rightarrow> pystr) \<Rightarrow> pystr \<Rightarrow> pystr list" where
  "columns ulower header_line =
     map (\<lambda>col. lower ulower (strip col)) (split header_line (of_char CHR '',''))"

definition columns_original :: "pystr \<Rightarrow> pystr list" where
  "columns_original header_line = map strip (split header_line (of_char CHR '',''))"

text \<open>
  The body of the \<open>try\<close> block of \<open>detect_csv_format\<close>: the value returned, or the
  exception raised, and the state it leaves.
\<close>

definition try_body :: "(pystr \<Rightarrow> pystr) \<Rightarrow> filesystem \<Rightarrow> pystr \<Rightarrow> state \<Rightarrow> (exn + pystr) \<times> state" where
  "try_body ulower fs filepath s =
     (let s1 = s\<lparr>opened := filepath # opened s\<rparr> in
      case fs filepath of
        Inl e \<Rightarrow> (Inl e, s1)
      | Inr content \<Rightarrow>
          (let header_line = strip (readline content);
               columns_set = set (columns ulower header_line)
           in if str ''extra'' \<in> columns_set \<and> str ''datetime'' \<in> columns_set
              then (Inr (str ''eucworld''),
                    s1\<lparr>format_cache := (format_cache s1)(filepath \<mapsto> str ''eucworld'')\<rparr>)
              else
                (let columns_original_set = set (columns_original header_line)
                 in if str ''Date'' \<in> columns_original_set \<and>
                       str ''Battery level'' \<in> columns_original_set \<and>
                       str ''Pitch'' \<in> columns_original_set \<and>
                       str ''Total mileage'' \<in> columns_original_set
                    then (Inr (str ''darknessbot''),
                          s1\<lparr>format_cache := (format_cache s1)(filepath \<mapsto> str ''darknessbot'')\<rparr>)
                    else if str ''date'' \<in> columns_set \<and> str ''time'' \<in> columns_set \<and>
                            str ''extra'' \<notin> columns_set
                    then (Inr (str ''wheellog''),
                          s1\<lparr>format_cache := (format_cache s1)(filepath \<mapsto> str ''wheellog'')\<rparr>)
                    else (Inr (str ''unknown''),
                          s1\<lparr>format_cache := (format_cache s1)(filepath \<mapsto> str ''unknown'')\<rparr>))))"

text \<open>
  \<open>detect_csv_format(filepath)\<close>: the value returned, or the exception that reaches the
  caller, and the state the call leaves.  The cache is looked up first; otherwise the
  \<open>try\<close> block runs.  Its \<open>except Exception\<close> handler prints and then returns
  \<open>'unknown'\<close> without writing to the cache.  The \<open>print\<close> stands in the handler with
  nothing around it, so an exception it raises leaves the function.
\<close>

definition detect_csv_format :: "(pystr \<Rightarrow> pystr) \<Rightarrow> filesystem \<Rightarrow> console \<Rightarrow> pystr \<Rightarrow> state \<Rightarrow> (exn + pystr) \<times> state" where
  "detect_csv_format ulower fs out filepath s =
     (case format_cache s filepath of
        Some label \<Rightarrow> (Inr label, s)
      | None \<Rightarrow>
          (case try_body ulower fs filepath s of
             (Inr label, s') \<Rightarrow> (Inr label, s')
           | (Inl e, s') \<Rightarrow>
               (case out filepath e of
                  Some e' \<Rightarrow> (Inl e', s')
                | None \<Rightarrow> (Inr (str ''unknown''), s'\<lparr>printed := (filepath, e) # printed s'\<rparr>))))"

text \<open>
  A process lifetime is a sequence of calls, each with the files and the standard output
  as they are at that moment: \<open>list_csv_files\<close> calls \<open>detect_csv_format\<close> once for
  every file it finds, on every request.  A call that raises leaves its state behind too:
  \<open>format_cache\<close> is a global of the module.
\<close>

fun run :: "(pystr \<Rightarrow> pystr) \<Rightarrow> (filesystem \<times> console \<times> pystr) list \<Rightarrow> state \<Rightarrow> state" where
  "run ulower [] s = s"
| "run ulower ((fs, out, filepath) # calls) s =
     run ulower calls (snd (detect_csv_format ulower fs out filepath s))"

text \<open>
  Files for concrete inputs: one file with a given text, no file at all, and files that
  exist and may not be read.
\<close>

definition single_file :: "pystr \<Rightarrow> pystr \<Rightarrow> filesystem" where
  "single_file filepath content =
     (\<lambda>p. if p = filepath then Inr content else Inl FileNotFoundError)"

definition no_files :: filesystem where
  "no_files = (\<lambda>p. Inl FileNotFoundError)"

definition unreadable_files :: filesystem where
  "unreadable_files = (\<lambda>p. Inl PermissionError)"

text \<open>
  A standard output with the strict UTF-8 encoding, for concrete inputs: \<open>print\<close> raises
  \<open>UnicodeEncodeError\<close> when the path has a surrogate code point (\<open>U+D800..U+DFFF\<close>;
  \<open>os.walk\<close> gives one for every byte of a file name that is not UTF-8) and writes the
  message otherwise.  The text of the exception holds the path in escaped form only.
\<close>

definition utf8_stdout :: console where
  "utf8_stdout filepath e =
     (if list_ex (\<lambda>c. 55296 \<le> c \<and> c \<le> 57343) filepath then Some UnicodeEncodeError else None)"

section \<open>Basic facts about one call and about runs\<close>

lemmas eval_defs = str_def strip_def isspace_def lower_def ascii_lower_def readline_def
  columns_def columns_original_def try_body_def detect_csv_format_def single_file_def
  no_files_def unreadable_files_def utf8_stdout_def initial_def

lemma labels_distinct:
  "str ''eucworld'' \<noteq> str ''darknessbot''" "str ''eucworld'' \<noteq> str ''wheellog''"
  "str ''eucworld'' \<noteq> str ''unknown''" "str ''darknessbot'' \<noteq> str ''wheellog''"
  "str ''darknessbot'' \<noteq> str ''unknown''" "str ''wheellog'' \<noteq> str ''unknown''"
  "str ''darknessbot'' \<noteq> str ''eucworld''" "str ''wheellog'' \<noteq> str ''eucworld''"
  "str ''unknown'' \<noteq> str ''eucworld''" "str ''wheellog'' \<noteq> str ''darknessbot''"
  "str ''unknown'' \<noteq> str ''darknessbot''" "str ''unknown'' \<noteq> str ''wheellog''"
  by (simp_all add: str_def)

lemma detect_cached:
  "format_cache s filepath = Some label \<Longrightarrow> detect_csv_format ulower fs out filepath s = (Inr label, s)"
  by (simp add: detect_csv_format_def)

lemma detect_unreadable:
  "format_cache s filepath = None \<Longrightarrow> fs filepath = Inl e \<Longrightarrow>
   detect_csv_format ulower fs out filepath s =
     (case out filepath e of
        Some e' \<Rightarrow> (Inl e', s\<lparr>opened := filepath # opened s\<rparr>)
      | None \<Rightarrow> (Inr (str ''unknown''),
                 s\<lparr>opened := filepath # opened s, printed := (filepath, e) # printed s\<rparr>))"
  by (simp add: detect_csv_format_def try_body_def split: option.split)

lemma detect_unreadable_printed:
  "format_cache s filepath = None \<Longrightarrow> fs filepath = Inl e \<Longrightarrow> out filepath e = None \<Longrightarrow>
   detect_csv_format ulower fs out filepath s =
     (Inr (str ''unknown''),
      s\<lparr>opened := filepath # opened s, printed := (filepath, e) # printed s\<rparr>)"
  by (simp add: detect_unreadable)

lemma detect_unreadable_raised:
  "format_cache s filepath = None \<Longrightarrow> fs filepath = Inl e \<Longrightarrow> out filepath e = Some e' \<Longrightarrow>
   detect_csv_format ulower fs out filepath s = (Inl e', s\<lparr>opened := filepath # opened s\<rparr>)"
  by (simp add: detect_unreadable)

lemma detect_readable_state:
  "format_cache s filepath = None \<Longrightarrow> fs filepath = Inr content \<Longrightarrow>
   \<exists>label. fst (detect_csv_format ulower fs out filepath s) = Inr label \<and>
     snd (detect_csv_format ulower fs out filepath s) =
       s\<lparr>opened := filepath # opened s,
         format_cache := (format_cache s)(filepath \<mapsto> label)\<rparr>"
  by (simp add: detect_csv_format_def try_body_def Let_def)

lemma detect_readable_label:
  "format_cache s filepath = None \<Longrightarrow> fs filepath = Inr content \<Longrightarrow>
   fst (detect_csv_format ulower fs out filepath s) = Inr
     (if str ''extra'' \<in> set (columns ulower (strip (readline content))) \<and>
         str ''datetime'' \<in> set (columns ulower (strip (readline content)))
      then str ''eucworld''
      else if str ''Date'' \<in> set (columns_original (strip (readline content))) \<and>
              str ''Battery level'' \<in> set (columns_original (strip (readline content))) \<and>
              str ''Pitch'' \<in> set (columns_original (strip (readline content))) \<and>
              str ''Total mileage'' \<in> set (columns_original (strip (readline content)))
      then str ''darknessbot''
      else if str ''date'' \<in> set (columns ulower (strip (readline content))) \<and>
              str ''time'' \<in> set (columns ulower (strip (readline content))) \<and>
              str ''extra'' \<notin> set (columns ulower (strip (readline content)))
      then str ''wheellog''
      else str ''unknown'')"
  by (simp add: detect_csv_format_def try_body_def Let_def)

lemma detect_raises_from_print_only:
  assumes "fst (detect_csv_format ulower fs out filepath s) = Inl e'"
  shows "\<exists>e. format_cache s filepath = None \<and> fs filepath = Inl e \<and> out filepath e = Some e'"
proof (cases "format_cache s filepath")
  case (Some l)
  then show ?thesis using assms by (simp add: detect_cached)
next
  case None
  show ?thesis
  proof (cases "fs filepath")
    case (Inl e)
    then show ?thesis using None assms by (auto simp: detect_unreadable split: option.splits)
  next
    case (Inr content)
    then show ?thesis using None assms by (simp add: detect_readable_label)
  qed
qed

lemma detect_keeps_entries:
  assumes "format_cache s p = Some label"
  shows "format_cache (snd (detect_csv_format ulower fs out filepath s)) p = Some label"
proof (cases "format_cache s filepath")
  case (Some l)
  then show ?thesis using assms by (simp add: detect_cached)
next
  case None
  then have ne: "p \<noteq> filepath" using assms by auto
  show ?thesis
  proof (cases "fs filepath")
    case (Inl e)
    then show ?thesis using None assms by (simp add: detect_unreadable split: option.split)
  next
    case (Inr content)
    from detect_readable_state [where fs = fs and filepath = filepath and ulower = ulower
        and out = out, OF None Inr] obtain l where
      "snd (detect_csv_format ulower fs out filepath s) =
         s\<lparr>opened := filepath # opened s, format_cache := (format_cache s)(filepath \<mapsto> l)\<rparr>"
      by blast
    then show ?thesis using assms ne by simp
  qed
qed

lemma run_keeps_entries:
  "format_cache s p = Some label \<Longrightarrow> format_cache (run ulower calls s) p = Some label"
proof (induction calls arbitrary: s)
  case Nil
  then show ?case by simp
next
  case (Cons call calls)
  obtain fs out filepath where call: "call = (fs, out, filepath)" by (cases call)
  from Cons.prems have "format_cache (snd (detect_csv_format ulower fs out filepath s)) p = Some label"
    by (rule detect_keeps_entries)
  then have "format_cache (run ulower calls (snd (detect_csv_format ulower fs out filepath s))) p = Some label"
    by (rule Cons.IH)
  then show ?case by (simp add: call)
qed

section \<open>The classification rules\<close>

text \<open>
  C1 (as amended).  For a file that can be read and whose path is not in the cache, the call
  returns \<open>darknessbot\<close> exactly when the trimmed fields of the header line include the
  exact-case tokens \<open>Date\<close>, \<open>Battery level\<close>, \<open>Pitch\<close> and \<open>Total mileage\<close> and the
  trimmed, lowercased fields do not include both \<open>extra\<close> and \<open>datetime\<close>.  So a header
  with \<open>date\<close> in place of \<open>Date\<close> is not \<open>darknessbot\<close>, and one of \<open>extra\<close>,
  \<open>datetime\<close> alone does not change the result.
\<close>

theorem darknessbot_iff:
  assumes "format_cache s filepath = None" and "fs filepath = Inr content"
  shows "fst (detect_csv_format ulower fs out filepath s) = Inr (str ''darknessbot'') \<longleftrightarrow>
    str ''Date'' \<in> set (columns_original (strip (readline content))) \<and>
    str ''Battery level'' \<in> set (columns_original (strip (readline content))) \<and>
    str ''Pitch'' \<in> set (columns_original (strip (readline content))) \<and>
    str ''Total mileage'' \<in> set (columns_original (strip (readline content))) \<and>
    \<not> (str ''extra'' \<in> set (columns ulower (strip (readline content))) \<and>
       str ''datetime'' \<in> set (columns ulower (strip (readline content))))"
  using assms by (simp add: detect_readable_label labels_distinct)

theorem darknessbot_iff_witness:
  "format_cache initial (str ''a.csv'') = None \<and>
   single_file (str ''a.csv'') (str ''Date,Pitch,Battery level,Total mileage,Speed'')
     (str ''a.csv'') = Inr (str ''Date,Pitch,Battery level,Total mileage,Speed'') \<and>
   fst (detect_csv_format id
     (single_file (str ''a.csv'') (str ''Date,Pitch,Battery level,Total mileage,Speed'')) utf8_stdout
     (str ''a.csv'') initial) = Inr (str ''darknessbot'')"
proof -
  have a: "format_cache initial (str ''a.csv'') = None"
    by (simp add: initial_def)
  have b: "single_file (str ''a.csv'') (str ''Date,Pitch,Battery level,Total mileage,Speed'')
     (str ''a.csv'') = Inr (str ''Date,Pitch,Battery level,Total mileage,Speed'')"
    by (simp add: single_file_def)
  have c: "str ''Date'' \<in> set (columns_original (strip (readline
        (str ''Date,Pitch,Battery level,Total mileage,Speed'')))) \<and>
      str ''Battery level'' \<in> set (columns_original (strip (readline
        (str ''Date,Pitch,Battery level,Total mileage,Speed'')))) \<and>
      str ''Pitch'' \<in> set (columns_original (strip (readline
        (str ''Date,Pitch,Battery level,Total mileage,Speed'')))) \<and>
      str ''Total mileage'' \<in> set (columns_original (strip (readline
        (str ''Date,Pitch,Battery level,Total mileage,Speed'')))) \<and>
      \<not> (str ''extra'' \<in> set (columns id (strip (readline
           (str ''Date,Pitch,Battery level,Total mileage,Speed'')))) \<and>
         str ''datetime'' \<in> set (columns id (strip (readline
           (str ''Date,Pitch,Battery level,Total mileage,Speed'')))))"
    by (simp add: eval_defs)
  from darknessbot_iff [where s = initial and filepath = "str ''a.csv''" and ulower = id and out = utf8_stdout
      and fs = "single_file (str ''a.csv'') (str ''Date,Pitch,Battery level,Total mileage,Speed'')"
      and content = "str ''Date,Pitch,Battery level,Total mileage,Speed''", OF a b] c a b
  show ?thesis by blast
qed

text \<open>
  The claim as it was written fails: with \<open>Extra\<close> and \<open>DateTime\<close> also present, all four
  exact-case tokens are there and the call returns \<open>eucworld\<close>.
\<close>

theorem darknessbot_counterexample:
  "format_cache initial (str ''a.csv'') = None \<and>
   str ''Date'' \<in> set (columns_original (strip (readline
     (str ''Date,Battery level,Pitch,Total mileage,Extra,DateTime'')))) \<and>
   str ''Battery level'' \<in> set (columns_original (strip (readline
     (str ''Date,Battery level,Pitch,Total mileage,Extra,DateTime'')))) \<and>
   str ''Pitch'' \<in> set (columns_original (strip (readline
     (str ''Date,Battery level,Pitch,Total mileage,Extra,DateTime'')))) \<and>
   str ''Total mileage'' \<in> set (columns_original (strip (readline
     (str ''Date,Battery level,Pitch,Total mileage,Extra,DateTime'')))) \<and>
   fst (detect_csv_format id
     (single_file (str ''a.csv'') (str ''Date,Battery level,Pitch,Total mileage,Extra,DateTime'')) utf8_stdout
     (str ''a.csv'') initial) = Inr (str ''eucworld'') \<and>
   str ''eucworld'' \<noteq> str ''darknessbot''"
  by (simp add: eval_defs)

text \<open>
  C2 (as amended).  For a file that can be read and whose path is not in the cache: when
  the trimmed, lowercased fields of the header line include \<open>date\<close> and \<open>time\<close> and not
  \<open>extra\<close>, and the trimmed fields do not include all four of \<open>Date\<close>, \<open>Battery level\<close>,
  \<open>Pitch\<close>, \<open>Total mileage\<close> in exact case, the call returns \<open>wheellog\<close>.
\<close>

theorem wheellog_rule:
  assumes "format_cache s filepath = None" and "fs filepath = Inr content"
    and "str ''date'' \<in> set (columns ulower (strip (readline content)))"
    and "str ''time'' \<in> set (columns ulower (strip (readline content)))"
    and "str ''extra'' \<notin> set (columns ulower (strip (readline content)))"
    and "\<not> (str ''Date'' \<in> set (columns_original (strip (readline content))) \<and>
            str ''Battery level'' \<in> set (columns_original (strip (readline content))) \<and>
            str ''Pitch'' \<in> set (columns_original (strip (readline content))) \<and>
            str ''Total mileage'' \<in> set (columns_original (strip (readline content))))"
  shows "fst (detect_csv_format ulower fs out filepath s) = Inr (str ''wheellog'')"
  using assms by (auto simp: detect_readable_label)

theorem wheellog_rule_witness:
  "format_cache initial (str ''a.csv'') = None \<and>
   single_file (str ''a.csv'') (str ''date,time,speed,voltage'') (str ''a.csv'') =
     Inr (str ''date,time,speed,voltage'') \<and>
   str ''date'' \<in> set (columns id (strip (readline (str ''date,time,speed,voltage'')))) \<and>
   str ''time'' \<in> set (columns id (strip (readline (str ''date,time,speed,voltage'')))) \<and>
   str ''extra'' \<notin> set (columns id (strip (readline (str ''date,time,speed,voltage'')))) \<and>
   str ''Date'' \<notin> set (columns_original (strip (readline (str ''date,time,speed,voltage'')))) \<and>
   fst (detect_csv_format id (single_file (str ''a.csv'') (str ''date,time,speed,voltage'')) utf8_stdout
     (str ''a.csv'') initial) = Inr (str ''wheellog'')"
proof -
  have a: "format_cache initial (str ''a.csv'') = None"
    by (simp add: initial_def)
  have b: "single_file (str ''a.csv'') (str ''date,time,speed,voltage'') (str ''a.csv'') =
     Inr (str ''date,time,speed,voltage'')"
    by (simp add: single_file_def)
  have c: "str ''date'' \<in> set (columns id (strip (readline (str ''date,time,speed,voltage''))))"
    by (simp add: eval_defs)
  have d: "str ''time'' \<in> set (columns id (strip (readline (str ''date,time,speed,voltage''))))"
    by (simp add: eval_defs)
  have e: "str ''extra'' \<notin> set (columns id (strip (readline (str ''date,time,speed,voltage''))))"
    by (simp add: eval_defs)
  have f: "str ''Date'' \<notin> set (columns_original (strip (readline (str ''date,time,speed,voltage''))))"
    by (simp add: eval_defs)
  then have g: "\<not> (str ''Date'' \<in> set (columns_original (strip (readline (str ''date,time,speed,voltage'')))) \<and>
      str ''Battery level'' \<in> set (columns_original (strip (readline (str ''date,time,speed,voltage'')))) \<and>
      str ''Pitch'' \<in> set (columns_original (strip (readline (str ''date,time,speed,voltage'')))) \<and>
      str ''Total mileage'' \<in> set (columns_original (strip (readline (str ''date,time,speed,voltage'')))))"
    by blast
  from wheellog_rule [where s = initial and filepath = "str ''a.csv''" and ulower = id and out = utf8_stdout
      and fs = "single_file (str ''a.csv'') (str ''date,time,speed,voltage'')"
      and content = "str ''date,time,speed,voltage''", OF a b c d e g] a b c d e f
  show ?thesis by blast
qed

text \<open>
  The claim as it was written fails: the darknessbot rule is tried before the wheellog
  rule, so a header with the four darknessbot tokens and \<open>Time\<close> is \<open>darknessbot\<close>.
\<close>

theorem wheellog_counterexample:
  "format_cache initial (str ''a.csv'') = None \<and>
   str ''date'' \<in> set (columns id (strip (readline
     (str ''Date,Time,Battery level,Pitch,Total mileage'')))) \<and>
   str ''time'' \<in> set (columns id (strip (readline
     (str ''Date,Time,Battery level,Pitch,Total mileage'')))) \<and>
   str ''extra'' \<notin> set (columns id (strip (readline
     (str ''Date,Time,Battery level,Pitch,Total mileage'')))) \<and>
   fst (detect_csv_format id
     (single_file (str ''a.csv'') (str ''Date,Time,Battery level,Pitch,Total mileage'')) utf8_stdout
     (str ''a.csv'') initial) = Inr (str ''darknessbot'') \<and>
   str ''darknessbot'' \<noteq> str ''wheellog''"
  by (simp add: eval_defs)

text \<open>
  C3.  For a file that can be read and whose path is not in the cache: when the trimmed,
  lowercased fields of the header line include \<open>extra\<close> and \<open>datetime\<close>, the call returns
  \<open>eucworld\<close>, whatever the other columns are; the header
  \<open>timestamp,Extra,DateTime,speed\<close> is \<open>eucworld\<close>.
\<close>

theorem eucworld_rule:
  "(format_cache s filepath = None \<and> fs filepath = Inr content \<and>
    str ''extra'' \<in> set (columns ulower (strip (readline content))) \<and>
    str ''datetime'' \<in> set (columns ulower (strip (readline content))) \<longrightarrow>
    fst (detect_csv_format ulower fs out filepath s) = Inr (str ''eucworld'')) \<and>
   fst (detect_csv_format ulower
     (single_file p (str ''timestamp,Extra,DateTime,speed'')) out p initial) = Inr (str ''eucworld'')"
proof
  show "format_cache s filepath = None \<and> fs filepath = Inr content \<and>
    str ''extra'' \<in> set (columns ulower (strip (readline content))) \<and>
    str ''datetime'' \<in> set (columns ulower (strip (readline content))) \<longrightarrow>
    fst (detect_csv_format ulower fs out filepath s) = Inr (str ''eucworld'')"
    by (simp add: detect_readable_label)
  show "fst (detect_csv_format ulower
     (single_file p (str ''timestamp,Extra,DateTime,speed'')) out p initial) = Inr (str ''eucworld'')"
    by (simp add: eval_defs)
qed

theorem eucworld_rule_witness:
  "format_cache initial (str ''a.csv'') = None \<and>
   single_file (str ''a.csv'') (str ''Date,Battery level,Pitch,Total mileage, EXTRA ,DateTime'')
     (str ''a.csv'') = Inr (str ''Date,Battery level,Pitch,Total mileage, EXTRA ,DateTime'') \<and>
   str ''extra'' \<in> set (columns id (strip (readline
     (str ''Date,Battery level,Pitch,Total mileage, EXTRA ,DateTime'')))) \<and>
   str ''datetime'' \<in> set (columns id (strip (readline
     (str ''Date,Battery level,Pitch,Total mileage, EXTRA ,DateTime'')))) \<and>
   fst (detect_csv_format id
     (single_file (str ''a.csv'') (str ''Date,Battery level,Pitch,Total mileage, EXTRA ,DateTime'')) utf8_stdout
     (str ''a.csv'') initial) = Inr (str ''eucworld'')"
proof -
  have a: "format_cache initial (str ''a.csv'') = None"
    by (simp add: initial_def)
  have b: "single_file (str ''a.csv'') (str ''Date,Battery level,Pitch,Total mileage, EXTRA ,DateTime'')
     (str ''a.csv'') = Inr (str ''Date,Battery level,Pitch,Total mileage, EXTRA ,DateTime'')"
    by (simp add: single_file_def)
  have c: "str ''extra'' \<in> set (columns id (strip (readline
     (str ''Date,Battery level,Pitch,Total mileage, EXTRA ,DateTime''))))"
    by (simp add: eval_defs)
  have d: "str ''datetime'' \<in> set (columns id (strip (readline
     (str ''Date,Battery level,Pitch,Total mileage, EXTRA ,DateTime''))))"
    by (simp add: eval_defs)
  from eucworld_rule [where s = initial and filepath = "str ''a.csv''" and ulower = id and out = utf8_stdout
      and fs = "single_file (str ''a.csv'') (str ''Date,Battery level,Pitch,Total mileage, EXTRA ,DateTime'')"
      and content = "str ''Date,Battery level,Pitch,Total mileage, EXTRA ,DateTime''"] a b c d
  show ?thesis by blast
qed

section \<open>The cache\<close>

text \<open>
  C4 (as amended).  Calling \<open>detect\<close> on the same path twice in succession, with the
  files and the standard output unchanged, has the same outcome both times.  When the path
  was in the cache before the first call, or the first call could read the file, both
  calls return the same label and the second call opens no file, whatever the files are by
  then.  When the path was not in the cache and the file could not be read, \<open>unknown\<close>
  is not stored, and the second call opens the file again.
\<close>

theorem detect_twice:
  "fst (detect_csv_format ulower fs out filepath (snd (detect_csv_format ulower fs out filepath s))) =
     fst (detect_csv_format ulower fs out filepath s) \<and>
   (format_cache s filepath = Some l \<or> fs filepath = Inr content \<longrightarrow>
      (\<exists>label. fst (detect_csv_format ulower fs out filepath s) = Inr label) \<and>
      fst (detect_csv_format ulower fs' out' filepath (snd (detect_csv_format ulower fs out filepath s))) =
        fst (detect_csv_format ulower fs out filepath s) \<and>
      opened (snd (detect_csv_format ulower fs' out' filepath
                (snd (detect_csv_format ulower fs out filepath s)))) =
        opened (snd (detect_csv_format ulower fs out filepath s))) \<and>
   (format_cache s filepath = None \<and> fs filepath = Inl e \<longrightarrow>
      opened (snd (detect_csv_format ulower fs out filepath
                (snd (detect_csv_format ulower fs out filepath s)))) =
        filepath # opened (snd (detect_csv_format ulower fs out filepath s)))"
proof (cases "format_cache s filepath")
  case (Some l')
  then show ?thesis by (simp add: detect_cached)
next
  case None
  show ?thesis
  proof (cases "fs filepath")
    case (Inl e')
    note unc = None
    show ?thesis
    proof (cases "out filepath e'")
      case None
      have first: "detect_csv_format ulower fs out filepath s =
          (Inr (str ''unknown''),
           s\<lparr>opened := filepath # opened s, printed := (filepath, e') # printed s\<rparr>)"
        using unc Inl None by (simp add: detect_unreadable)
      have "format_cache
          (s\<lparr>opened := filepath # opened s, printed := (filepath, e') # printed s\<rparr>) filepath = None"
        using unc by simp
      then have second: "detect_csv_format ulower fs out filepath
          (s\<lparr>opened := filepath # opened s, printed := (filepath, e') # printed s\<rparr>) =
          (Inr (str ''unknown''),
           s\<lparr>opened := filepath # filepath # opened s,
             printed := (filepath, e') # (filepath, e') # printed s\<rparr>)"
        using Inl None by (simp add: detect_unreadable)
      have "fs filepath \<noteq> Inr content" using Inl by simp
      then show ?thesis using unc by (simp add: first second)
    next
      case (Some x)
      have first: "detect_csv_format ulower fs out filepath s =
          (Inl x, s\<lparr>opened := filepath # opened s\<rparr>)"
        using unc Inl Some by (simp add: detect_unreadable)
      have "format_cache (s\<lparr>opened := filepath # opened s\<rparr>) filepath = None"
        using unc by simp
      then have second: "detect_csv_format ulower fs out filepath
          (s\<lparr>opened := filepath # opened s\<rparr>) =
          (Inl x, s\<lparr>opened := filepath # filepath # opened s\<rparr>)"
        using Inl Some by (simp add: detect_unreadable)
      have "fs filepath \<noteq> Inr content" using Inl by simp
      then show ?thesis using unc by (simp add: first second)
    qed
  next
    case (Inr content')
    from detect_readable_state [where fs = fs and filepath = filepath and ulower = ulower
        and out = out, OF None Inr] obtain label where
      lab: "fst (detect_csv_format ulower fs out filepath s) = Inr label" and
      st: "snd (detect_csv_format ulower fs out filepath s) =
         s\<lparr>opened := filepath # opened s, format_cache := (format_cache s)(filepath \<mapsto> label)\<rparr>"
      by blast
    from st have "format_cache (snd (detect_csv_format ulower fs out filepath s)) filepath = Some label"
      by simp
    then have "\<And>fs2 out2. detect_csv_format ulower fs2 out2 filepath
          (snd (detect_csv_format ulower fs out filepath s)) =
        (Inr label, snd (detect_csv_format ulower fs out filepath s))"
      by (rule detect_cached)
    then show ?thesis using None Inr lab by simp
  qed
qed

theorem detect_twice_witness:
  "single_file (str ''a.csv'') (str ''date,time'') (str ''a.csv'') = Inr (str ''date,time'') \<and>
   fst (detect_csv_format id (single_file (str ''a.csv'') (str ''extra,datetime'')) utf8_stdout (str ''a.csv'')
     (snd (detect_csv_format id (single_file (str ''a.csv'') (str ''date,time'')) utf8_stdout (str ''a.csv'')
        initial))) =
     fst (detect_csv_format id (single_file (str ''a.csv'') (str ''date,time'')) utf8_stdout (str ''a.csv'')
        initial) \<and>
   opened (snd (detect_csv_format id (single_file (str ''a.csv'') (str ''extra,datetime'')) utf8_stdout
     (str ''a.csv'')
     (snd (detect_csv_format id (single_file (str ''a.csv'') (str ''date,time'')) utf8_stdout (str ''a.csv'')
        initial)))) =
     opened (snd (detect_csv_format id (single_file (str ''a.csv'') (str ''date,time'')) utf8_stdout
       (str ''a.csv'') initial)) \<and>
   format_cache initial (str ''a.csv'') = None \<and> no_files (str ''a.csv'') = Inl FileNotFoundError \<and>
   opened (snd (detect_csv_format id no_files utf8_stdout (str ''a.csv'')
     (snd (detect_csv_format id no_files utf8_stdout (str ''a.csv'') initial)))) =
     str ''a.csv'' # opened (snd (detect_csv_format id no_files utf8_stdout (str ''a.csv'') initial))"
proof -
  have a: "single_file (str ''a.csv'') (str ''date,time'') (str ''a.csv'') = Inr (str ''date,time'')"
    by (simp add: single_file_def)
  have b: "format_cache initial (str ''a.csv'') = None"
    by (simp add: initial_def)
  have c: "no_files (str ''a.csv'') = Inl FileNotFoundError"
    by (simp add: no_files_def)
  from detect_twice [where s = initial and filepath = "str ''a.csv''" and ulower = id and out = utf8_stdout
      and fs = "single_file (str ''a.csv'') (str ''date,time'')" and content = "str ''date,time''"
      and fs' = "single_file (str ''a.csv'') (str ''extra,datetime'')"]
    detect_twice [where s = initial and filepath = "str ''a.csv''" and ulower = id and out = utf8_stdout
      and fs = no_files and e = FileNotFoundError] a b c
  show ?thesis by blast
qed

text \<open>
  The claim as it was written fails for a path with no file: the second call opens the
  path again.
\<close>

theorem detect_twice_counterexample:
  "opened (snd (detect_csv_format id no_files utf8_stdout (str ''a.csv'') initial)) = [str ''a.csv''] \<and>
   opened (snd (detect_csv_format id no_files utf8_stdout (str ''a.csv'')
     (snd (detect_csv_format id no_files utf8_stdout (str ''a.csv'') initial)))) =
     [str ''a.csv'', str ''a.csv'']"
  by (simp add: eval_defs)

text \<open>
  C5 (as amended).  After a call \<open>detect(path)\<close>, when the path was in the cache before or
  the file could be read, the call has returned a label \<open>L\<close> and the cache maps the path
  to \<open>L\<close>.  When the path was not in the cache and the file could not be read, the call
  returns \<open>unknown\<close> if the \<open>print\<close> of the handler does not raise, and the cache is what
  it was before: it has no entry for the path.
\<close>

theorem cache_after_detect:
  "(format_cache s filepath = Some l \<or> fs filepath = Inr content \<longrightarrow>
      (\<exists>label. fst (detect_csv_format ulower fs out filepath s) = Inr label \<and>
         format_cache (snd (detect_csv_format ulower fs out filepath s)) filepath = Some label)) \<and>
   (format_cache s filepath = None \<and> fs filepath = Inl e \<longrightarrow>
      fst (detect_csv_format ulower fs out filepath s) =
        (case out filepath e of None \<Rightarrow> Inr (str ''unknown'') | Some e' \<Rightarrow> Inl e') \<and>
      format_cache (snd (detect_csv_format ulower fs out filepath s)) = format_cache s \<and>
      format_cache (snd (detect_csv_format ulower fs out filepath s)) filepath = None)"
proof (cases "format_cache s filepath")
  case (Some l')
  then show ?thesis by (simp add: detect_cached)
next
  case None
  show ?thesis
  proof (cases "fs filepath")
    case (Inl e')
    note unc = None
    show ?thesis
    proof (cases "out filepath e'")
      case None
      have "detect_csv_format ulower fs out filepath s =
          (Inr (str ''unknown''),
           s\<lparr>opened := filepath # opened s, printed := (filepath, e') # printed s\<rparr>)"
        using unc Inl None by (simp add: detect_unreadable)
      then show ?thesis using unc Inl None by auto
    next
      case (Some x)
      have "detect_csv_format ulower fs out filepath s =
          (Inl x, s\<lparr>opened := filepath # opened s\<rparr>)"
        using unc Inl Some by (simp add: detect_unreadable)
      then show ?thesis using unc Inl Some by auto
    qed
  next
    case (Inr content')
    from detect_readable_state [where fs = fs and filepath = filepath and ulower = ulower
        and out = out, OF None Inr] obtain label where
      "fst (detect_csv_format ulower fs out filepath s) = Inr label" and
      "snd (detect_csv_format ulower fs out filepath s) =
         s\<lparr>opened := filepath # opened s, format_cache := (format_cache s)(filepath \<mapsto> label)\<rparr>"
      by blast
    then show ?thesis using None Inr by simp
  qed
qed

theorem cache_after_detect_witness:
  "single_file (str ''a.csv'') [] (str ''a.csv'') = Inr [] \<and>
   fst (detect_csv_format id (single_file (str ''a.csv'') []) utf8_stdout (str ''a.csv'') initial) =
     Inr (str ''unknown'') \<and>
   format_cache (snd (detect_csv_format id (single_file (str ''a.csv'') []) utf8_stdout
     (str ''a.csv'') initial)) (str ''a.csv'') = Some (str ''unknown'') \<and>
   format_cache initial (str ''b.csv'') = None \<and>
   single_file (str ''a.csv'') [] (str ''b.csv'') = Inl FileNotFoundError \<and>
   fst (detect_csv_format id (single_file (str ''a.csv'') []) utf8_stdout (str ''b.csv'') initial) =
     Inr (str ''unknown'') \<and>
   format_cache (snd (detect_csv_format id (single_file (str ''a.csv'') []) utf8_stdout
     (str ''b.csv'') initial)) (str ''b.csv'') = None"
proof -
  have a: "single_file (str ''a.csv'') [] (str ''a.csv'') = Inr []"
    by (simp add: single_file_def)
  have b: "format_cache initial (str ''b.csv'') = None"
    by (simp add: initial_def)
  have c: "single_file (str ''a.csv'') [] (str ''b.csv'') = Inl FileNotFoundError"
    by (simp add: single_file_def str_def)
  have d: "fst (detect_csv_format id (single_file (str ''a.csv'') []) utf8_stdout (str ''a.csv'')
      initial) = Inr (str ''unknown'')"
    by (simp add: eval_defs)
  have e: "utf8_stdout (str ''b.csv'') FileNotFoundError = None"
    by (simp add: utf8_stdout_def str_def)
  from cache_after_detect [where s = initial and filepath = "str ''a.csv''" and ulower = id
      and out = utf8_stdout and fs = "single_file (str ''a.csv'') []" and content = "[]"] a d
  have f: "format_cache (snd (detect_csv_format id (single_file (str ''a.csv'') []) utf8_stdout
     (str ''a.csv'') initial)) (str ''a.csv'') = Some (str ''unknown'')"
    by auto
  from cache_after_detect [where s = initial and filepath = "str ''b.csv''" and ulower = id
      and out = utf8_stdout and fs = "single_file (str ''a.csv'') []" and e = FileNotFoundError]
    b c e
  have g: "fst (detect_csv_format id (single_file (str ''a.csv'') []) utf8_stdout (str ''b.csv'')
        initial) = Inr (str ''unknown'') \<and>
      format_cache (snd (detect_csv_format id (single_file (str ''a.csv'') []) utf8_stdout
        (str ''b.csv'') initial)) (str ''b.csv'') = None"
    by simp
  from a b c d f g show ?thesis by blast
qed

text \<open>
  The claim as it was written fails for a path with no file: the call returns \<open>unknown\<close>
  and the cache has no entry for the path.
\<close>

theorem cache_after_detect_counterexample:
  "fst (detect_csv_format id no_files utf8_stdout (str ''a.csv'') initial) = Inr (str ''unknown'') \<and>
   format_cache (snd (detect_csv_format id no_files utf8_stdout (str ''a.csv'') initial)) (str ''a.csv'') = None"
  by (simp add: eval_defs)

text \<open>
  C6.  Once a path is a key of the cache, every later call \<open>detect(path)\<close> returns the
  cached label and leaves the state as it is (so it opens no file), after any sequence of
  calls in between (also calls that raise) and whatever the files have become.
\<close>

theorem cached_label_is_kept:
  assumes "format_cache s p = Some label"
  shows "fst (detect_csv_format ulower fs' out' p (run ulower calls s)) = Inr label \<and>
         snd (detect_csv_format ulower fs' out' p (run ulower calls s)) = run ulower calls s \<and>
         opened (snd (detect_csv_format ulower fs' out' p (run ulower calls s))) =
           opened (run ulower calls s)"
proof -
  from assms have "format_cache (run ulower calls s) p = Some label"
    by (rule run_keeps_entries)
  then have "detect_csv_format ulower fs' out' p (run ulower calls s) = (Inr label, run ulower calls s)"
    by (rule detect_cached)
  then show ?thesis by simp
qed

theorem cached_label_is_kept_witness:
  "format_cache (snd (detect_csv_format id (single_file (str ''a.csv'') (str ''date,time'')) utf8_stdout
       (str ''a.csv'') initial)) (str ''a.csv'') = Some (str ''wheellog'') \<and>
   fst (detect_csv_format id (single_file (str ''a.csv'') (str ''extra,datetime'')) utf8_stdout (str ''a.csv'')
     (run id [(single_file (str ''a.csv'') (str ''extra,datetime''), utf8_stdout, str ''a.csv''),
              (no_files, utf8_stdout, str ''b.csv'')]
       (snd (detect_csv_format id (single_file (str ''a.csv'') (str ''date,time'')) utf8_stdout
          (str ''a.csv'') initial)))) = Inr (str ''wheellog'')"
proof -
  have a: "format_cache (snd (detect_csv_format id (single_file (str ''a.csv'') (str ''date,time'')) utf8_stdout
       (str ''a.csv'') initial)) (str ''a.csv'') = Some (str ''wheellog'')"
    by (simp add: eval_defs)
  from cached_label_is_kept [OF a] a show ?thesis by blast
qed

section \<open>Errors, letter case, the remaining rule and determinism\<close>

text \<open>
  C7.  The claim: \<open>detect\<close> never raises; for every path it returns one of the four
  labels, and every error of opening or reading the file becomes \<open>unknown\<close>.  The code
  does not keep it.  The \<open>print\<close> in the \<open>except\<close> handler is not guarded: for a file
  that may not be read, whose name has a byte that is not UTF-8 (the path then has the code
  point \<open>U+DCFF\<close>), and a standard output with the strict UTF-8 encoding, the
  \<open>UnicodeEncodeError\<close> of \<open>print\<close> reaches the caller.  The same call with a path that
  can be encoded returns \<open>unknown\<close>.
\<close>

theorem print_in_handler_raises:
  "fst (detect_csv_format id unreadable_files utf8_stdout (56575 # str ''.csv'') initial) =
     Inl UnicodeEncodeError \<and>
   fst (detect_csv_format id unreadable_files utf8_stdout (str ''a.csv'') initial) =
     Inr (str ''unknown'')"
  by (simp add: eval_defs)

text \<open>
  C8.  The claim: a capitalized \<open>Date\<close> does not satisfy the \<open>date\<close> check of the
  wheellog rule, as the comment above that rule has it (WheelLog has \<open>date\<close> and \<open>time\<close>
  columns, not \<open>datetime\<close> or \<open>Date\<close>).  The code does not keep it, because the rule
  tests the lowercased fields: the header \<open>Date,time\<close> has \<open>Date\<close> and not \<open>date\<close>
  among its trimmed fields, no \<open>extra\<close>, no \<open>datetime\<close> and no darknessbot signature, and
  the call returns \<open>wheellog\<close>.  The header \<open>Date,Pitch,battery level,Total mileage\<close>
  is \<open>unknown\<close>, as the claim says.
\<close>

theorem capital_Date_time_is_wheellog:
  "str ''Date'' \<in> set (columns_original (strip (readline (str ''Date,time'')))) \<and>
   str ''date'' \<notin> set (columns_original (strip (readline (str ''Date,time'')))) \<and>
   str ''date'' \<in> set (columns id (strip (readline (str ''Date,time'')))) \<and>
   str ''extra'' \<notin> set (columns id (strip (readline (str ''Date,time'')))) \<and>
   str ''datetime'' \<notin> set (columns id (strip (readline (str ''Date,time'')))) \<and>
   str ''Pitch'' \<notin> set (columns_original (strip (readline (str ''Date,time'')))) \<and>
   fst (detect_csv_format id (single_file (str ''a.csv'') (str ''Date,time'')) utf8_stdout
     (str ''a.csv'') initial) = Inr (str ''wheellog'') \<and>
   fst (detect_csv_format id
     (single_file (str ''a.csv'') (str ''Date,Pitch,battery level,Total mileage'')) utf8_stdout
     (str ''a.csv'') initial) = Inr (str ''unknown'')"
  by (simp add: eval_defs)

text \<open>
  C9.  For a file that can be read and whose path is not in the cache: when the header
  line matches none of the three rules, the call returns \<open>unknown\<close>.  An empty file is
  \<open>unknown\<close>, and so is the header \<open>date,time,extra,voltage\<close>.
\<close>

theorem unknown_rule:
  "(format_cache s filepath = None \<and> fs filepath = Inr content \<and>
    \<not> (str ''extra'' \<in> set (columns ulower (strip (readline content))) \<and>
       str ''datetime'' \<in> set (columns ulower (strip (readline content)))) \<and>
    \<not> (str ''Date'' \<in> set (columns_original (strip (readline content))) \<and>
       str ''Battery level'' \<in> set (columns_original (strip (readline content))) \<and>
       str ''Pitch'' \<in> set (columns_original (strip (readline content))) \<and>
       str ''Total mileage'' \<in> set (columns_original (strip (readline content)))) \<and>
    \<not> (str ''date'' \<in> set (columns ulower (strip (readline content))) \<and>
       str ''time'' \<in> set (columns ulower (strip (readline content))) \<and>
       str ''extra'' \<notin> set (columns ulower (strip (readline content)))) \<longrightarrow>
    fst (detect_csv_format ulower fs out filepath s) = Inr (str ''unknown'')) \<and>
   fst (detect_csv_format ulower (single_file p []) out p initial) = Inr (str ''unknown'') \<and>
   fst (detect_csv_format ulower (single_file p (str ''date,time,extra,voltage'')) out p initial) =
     Inr (str ''unknown'')"
proof (intro conjI impI)
  assume "format_cache s filepath = None \<and> fs filepath = Inr content \<and>
    \<not> (str ''extra'' \<in> set (columns ulower (strip (readline content))) \<and>
       str ''datetime'' \<in> set (columns ulower (strip (readline content)))) \<and>
    \<not> (str ''Date'' \<in> set (columns_original (strip (readline content))) \<and>
       str ''Battery level'' \<in> set (columns_original (strip (readline content))) \<and>
       str ''Pitch'' \<in> set (columns_original (strip (readline content))) \<and>
       str ''Total mileage'' \<in> set (columns_original (strip (readline content)))) \<and>
    \<not> (str ''date'' \<in> set (columns ulower (strip (readline content))) \<and>
       str ''time'' \<in> set (columns ulower (strip (readline content))) \<and>
       str ''extra'' \<notin> set (columns ulower (strip (readline content))))"
  then show "fst (detect_csv_format ulower fs out filepath s) = Inr (str ''unknown'')"
    by (auto simp: detect_readable_label)
next
  show "fst (detect_csv_format ulower (single_file p []) out p initial) = Inr (str ''unknown'')"
    by (simp add: eval_defs)
next
  show "fst (detect_csv_format ulower (single_file p (str ''date,time,extra,voltage'')) out p initial) =
     Inr (str ''unknown'')"
    by (simp add: eval_defs)
qed

theorem unknown_rule_witness:
  "format_cache initial (str ''a.csv'') = None \<and>
   single_file (str ''a.csv'') (str ''Date,Pitch,Extra,time'') (str ''a.csv'') =
     Inr (str ''Date,Pitch,Extra,time'') \<and>
   str ''datetime'' \<notin> set (columns id (strip (readline (str ''Date,Pitch,Extra,time'')))) \<and>
   str ''Battery level'' \<notin> set (columns_original (strip (readline (str ''Date,Pitch,Extra,time'')))) \<and>
   str ''extra'' \<in> set (columns id (strip (readline (str ''Date,Pitch,Extra,time'')))) \<and>
   fst (detect_csv_format id (single_file (str ''a.csv'') (str ''Date,Pitch,Extra,time'')) utf8_stdout
     (str ''a.csv'') initial) = Inr (str ''unknown'')"
proof -
  have a: "format_cache initial (str ''a.csv'') = None"
    by (simp add: initial_def)
  have b: "single_file (str ''a.csv'') (str ''Date,Pitch,Extra,time'') (str ''a.csv'') =
     Inr (str ''Date,Pitch,Extra,time'')"
    by (simp add: single_file_def)
  have c: "str ''datetime'' \<notin> set (columns id (strip (readline (str ''Date,Pitch,Extra,time''))))"
    by (simp add: eval_defs)
  have d: "str ''Battery level'' \<notin>
      set (columns_original (strip (readline (str ''Date,Pitch,Extra,time''))))"
    by (simp add: eval_defs)
  have e: "str ''extra'' \<in> set (columns id (strip (readline (str ''Date,Pitch,Extra,time''))))"
    by (simp add: eval_defs)
  from unknown_rule [where s = initial and filepath = "str ''a.csv''" and ulower = id and out = utf8_stdout
      and fs = "single_file (str ''a.csv'') (str ''Date,Pitch,Extra,time'')"
      and content = "str ''Date,Pitch,Extra,time''"] a b c d e
  show ?thesis by blast
qed

text \<open>
  C10.  For paths that are not in the cache and files that can be read, the label depends
  on the first line of the file only: two calls, on any two paths, in any two states and
  with any files, return a label, the same one, when the first lines are the same.
\<close>

theorem label_from_first_line:
  assumes "format_cache s1 p1 = None" and "format_cache s2 p2 = None"
    and "fs1 p1 = Inr content1" and "fs2 p2 = Inr content2"
    and "readline content1 = readline content2"
  shows "fst (detect_csv_format ulower fs1 out1 p1 s1) = fst (detect_csv_format ulower fs2 out2 p2 s2) \<and>
         (\<exists>label. fst (detect_csv_format ulower fs1 out1 p1 s1) = Inr label)"
  using assms by (simp add: detect_readable_label)

theorem label_from_first_line_witness:
  "format_cache initial (str ''a.csv'') = None \<and>
   format_cache (snd (detect_csv_format id
       ((single_file (str ''a.csv'') (str ''date,time'' @ [10] @ str ''1,2''))
          (str ''b.csv'' := Inr (str ''date,time'' @ [13, 10] @ str ''extra,datetime''))) utf8_stdout
       (str ''a.csv'') initial)) (str ''b.csv'') = None \<and>
   readline (str ''date,time'' @ [10] @ str ''1,2'') =
     readline (str ''date,time'' @ [13, 10] @ str ''extra,datetime'') \<and>
   fst (detect_csv_format id
       ((single_file (str ''a.csv'') (str ''date,time'' @ [10] @ str ''1,2''))
          (str ''b.csv'' := Inr (str ''date,time'' @ [13, 10] @ str ''extra,datetime''))) utf8_stdout
       (str ''a.csv'') initial) =
   fst (detect_csv_format id
       ((single_file (str ''a.csv'') (str ''date,time'' @ [10] @ str ''1,2''))
          (str ''b.csv'' := Inr (str ''date,time'' @ [13, 10] @ str ''extra,datetime''))) utf8_stdout
       (str ''b.csv'')
       (snd (detect_csv_format id
          ((single_file (str ''a.csv'') (str ''date,time'' @ [10] @ str ''1,2''))
             (str ''b.csv'' := Inr (str ''date,time'' @ [13, 10] @ str ''extra,datetime''))) utf8_stdout
          (str ''a.csv'') initial)))"
proof -
  let ?fs = "(single_file (str ''a.csv'') (str ''date,time'' @ [10] @ str ''1,2''))
          (str ''b.csv'' := Inr (str ''date,time'' @ [13, 10] @ str ''extra,datetime''))"
  have a: "format_cache initial (str ''a.csv'') = None"
    by (simp add: initial_def)
  have b: "format_cache (snd (detect_csv_format id ?fs utf8_stdout (str ''a.csv'') initial)) (str ''b.csv'') = None"
    by (simp add: eval_defs)
  have c: "?fs (str ''a.csv'') = Inr (str ''date,time'' @ [10] @ str ''1,2'')"
    by (simp add: single_file_def str_def)
  have d: "?fs (str ''b.csv'') = Inr (str ''date,time'' @ [13, 10] @ str ''extra,datetime'')"
    by simp
  have e: "readline (str ''date,time'' @ [10] @ str ''1,2'') =
     readline (str ''date,time'' @ [13, 10] @ str ''extra,datetime'')"
    by (simp add: readline_def str_def)
  from label_from_first_line [where ulower = id and ?out1.0 = utf8_stdout and ?out2.0 = utf8_stdout
      and ?fs1.0 = "?fs" and ?fs2.0 = "?fs", OF a b c d e] a b e
  show ?thesis by blast
qed

end
